theory Spec2Isabelle
  imports
    Complex_Main
    "HOL-Library.List_Lexorder"
    "HOL-Library.Product_Lexorder"
    "HOL-Library.Sublist"
begin

section \<open>Strings\<close>

text \<open>
  A Python \<open>str\<close> is a sequence of Unicode code points, so it is modelled as a list of
  natural numbers. ASCII text is written with \<open>str\<close>; the three accented letters that
  occur in \<open>app.py\<close> are given by their code points (U+00E8, U+00E9, U+00F3).
\<close>

type_synonym pystr = "nat list"

definition str :: "string \<Rightarrow> pystr" where
  "str s = map of_char s"

definition e_grave :: nat where "e_grave = 232"
definition e_acute :: nat where "e_acute = 233"
definition o_acute :: nat where "o_acute = 243"

text \<open>\<open>s.startswith(p)\<close>, the helper of the substring test.\<close>

fun startswith :: "pystr \<Rightarrow> pystr \<Rightarrow> bool" where
  "startswith s [] = True"
| "startswith [] (p # ps) = False"
| "startswith (c # cs) (p # ps) = (c = p \<and> startswith cs ps)"

text \<open>\<open>p in s\<close> on strings: \<open>p\<close> occurs in \<open>s\<close> as a contiguous block.\<close>

fun py_in :: "pystr \<Rightarrow> pystr \<Rightarrow> bool" where
  "py_in p [] = (p = [])"
| "py_in p (c # cs) = (startswith (c # cs) p \<or> py_in p cs)"

text \<open>
  \<open>str.lower\<close> is driven by the Unicode tables of the Python runtime, which are not part
  of the repository. The categorizer therefore takes the lowercasing function as its
  first argument, and every theorem about it holds for whatever function is supplied.
  \<open>lower_latin1\<close> is the instance used to run examples: it agrees with \<open>str.lower\<close> on
  every string whose code points lie below 256 (ASCII and Latin-1), which covers the
  French offence labels of the dataset.
\<close>

definition lower_cp :: "nat \<Rightarrow> nat" where
  "lower_cp c =
     (if (65 \<le> c \<and> c \<le> 90) \<or> (192 \<le> c \<and> c \<le> 222 \<and> c \<noteq> 215) then c + 32 else c)"

definition lower_latin1 :: "pystr \<Rightarrow> pystr" where
  "lower_latin1 s = map lower_cp s"

section \<open>The categorizer\<close>

text \<open>The five category labels returned by \<open>categoritza_delicte\<close>.\<close>

definition cat_Robatoris :: pystr where
  "cat_Robatoris = str ''Robatoris / D'' @ [e_acute] @ str ''tournements / Danys''"

definition cat_Violencia :: pystr where
  "cat_Violencia = str ''Viol'' @ [e_grave] @ str ''ncia / Homicidi''"

definition cat_Frau :: pystr where
  "cat_Frau = str ''Frau / Corrupci'' @ [o_acute]"

definition cat_Sexuals :: pystr where
  "cat_Sexuals = str ''Infraccions sexuals''"

definition cat_Altres :: pystr where
  "cat_Altres = str ''Altres''"

definition categories :: "pystr list" where
  "categories = [cat_Robatoris, cat_Violencia, cat_Frau, cat_Sexuals, cat_Altres]"

text \<open>The two keywords of the source that contain an accented letter.\<close>

definition kw_detournement :: pystr where
  "kw_detournement = str ''d'' @ [e_acute] @ str ''tournement''"

definition kw_lesions :: pystr where
  "kw_lesions = str ''l'' @ [e_acute] @ str ''sions''"

text \<open>\<open>categoritza_delicte\<close> as defined at lines 179-190 of \<open>app.py\<close>.\<close>

definition categoritza_delicte :: "(pystr \<Rightarrow> pystr) \<Rightarrow> pystr \<Rightarrow> pystr" where
  "categoritza_delicte lower d =
     (let d_lower = lower d in
      if py_in (str ''vol'') d_lower \<or> py_in kw_detournement d_lower
           \<or> py_in (str ''dommages'') d_lower
      then cat_Robatoris
      else if py_in (str ''violence'') d_lower \<or> py_in kw_lesions d_lower
           \<or> py_in (str ''meurtre'') d_lower
      then cat_Violencia
      else if py_in (str ''fraude'') d_lower \<or> py_in (str ''escroquerie'') d_lower
           \<or> py_in (str ''corruption'') d_lower
      then cat_Frau
      else if py_in (str ''sexuel'') d_lower \<or> py_in (str ''inceste'') d_lower
           \<or> py_in (str ''prostitution'') d_lower
      then cat_Sexuals
      else cat_Altres)"

text \<open>
  The second definition of the same name, at lines 239-250 of \<open>app.py\<close>, which replaces
  the first one from there on. It is translated separately, branch by branch.
\<close>

definition categoritza_delicte_2 :: "(pystr \<Rightarrow> pystr) \<Rightarrow> pystr \<Rightarrow> pystr" where
  "categoritza_delicte_2 lower d =
     (let d_lower = lower d in
      if py_in (str ''vol'') d_lower \<or> py_in kw_detournement d_lower
           \<or> py_in (str ''dommages'') d_lower
      then cat_Robatoris
      else if py_in (str ''violence'') d_lower \<or> py_in kw_lesions d_lower
           \<or> py_in (str ''meurtre'') d_lower
      then cat_Violencia
      else if py_in (str ''fraude'') d_lower \<or> py_in (str ''escroquerie'') d_lower
           \<or> py_in (str ''corruption'') d_lower
      then cat_Frau
      else if py_in (str ''sexuel'') d_lower \<or> py_in (str ''inceste'') d_lower
           \<or> py_in (str ''prostitution'') d_lower
      then cat_Sexuals
      else cat_Altres)"

text \<open>
  The categorizer as the specification words it: four keyword groups in a fixed priority
  order, each paired with its category; the lowercased label is tested against the groups
  in that order, the first group with a keyword occurring in the label decides, and a
  label matching no group is \<open>Altres\<close>.
\<close>

definition keyword_groups :: "(pystr list \<times> pystr) list" where
  "keyword_groups =
     [([str ''vol'', kw_detournement, str ''dommages''], cat_Robatoris),
      ([str ''violence'', kw_lesions, str ''meurtre''], cat_Violencia),
      ([str ''fraude'', str ''escroquerie'', str ''corruption''], cat_Frau),
      ([str ''sexuel'', str ''inceste'', str ''prostitution''], cat_Sexuals)]"

fun any_keyword_in :: "pystr list \<Rightarrow> pystr \<Rightarrow> bool" where
  "any_keyword_in [] s = False"
| "any_keyword_in (k # ks) s = (py_in k s \<or> any_keyword_in ks s)"

fun first_match :: "(pystr list \<times> pystr) list \<Rightarrow> pystr \<Rightarrow> pystr" where
  "first_match [] s = cat_Altres"
| "first_match ((kws, c) # gs) s = (if any_keyword_in kws s then c else first_match gs s)"

definition categorizer_spec :: "(pystr \<Rightarrow> pystr) \<Rightarrow> pystr \<Rightarrow> pystr" where
  "categorizer_spec lower d = first_match keyword_groups (lower d)"

section \<open>Numbers\<close>

text \<open>
  A \<open>float64\<close> value is modelled as an exact rational or one of the three special values
  of IEEE 754; the rounding of finite results is left out. Crime counts are the integers
  of an \<open>int64\<close> column; they are modelled as unbounded integers, so the model covers
  tables whose counts, sums of counts and hundredfolds of counts stay below \<open>2^63\<close>.
\<close>

datatype fval = Fin rat | NaN | PInf | NInf

text \<open>
  \<open>a / b\<close> between an integer series and an integer scalar: pandas evaluates it with
  numpy's true division, which never raises; a zero divisor gives \<open>nan\<close> for \<open>0 / 0\<close> and
  a signed infinity otherwise.
\<close>

definition truediv :: "int \<Rightarrow> int \<Rightarrow> fval" where
  "truediv a b =
     (if b = 0 then (if a = 0 then NaN else if 0 < a then PInf else NInf)
      else Fin (of_int a / of_int b))"

text \<open>Addition of \<open>float64\<close> values, and the sum of a list of them.\<close>

fun fadd :: "fval \<Rightarrow> fval \<Rightarrow> fval" where
  "fadd (Fin a) (Fin b) = Fin (a + b)"
| "fadd NaN y = NaN"
| "fadd x NaN = NaN"
| "fadd PInf NInf = NaN"
| "fadd NInf PInf = NaN"
| "fadd PInf y = PInf"
| "fadd x PInf = PInf"
| "fadd NInf y = NInf"
| "fadd x NInf = NInf"

fun fsum :: "fval list \<Rightarrow> fval" where
  "fsum [] = Fin 0"
| "fsum (x # xs) = fadd x (fsum xs)"

text \<open>\<open>Series.mean()\<close>: the mean of no values is \<open>nan\<close>, not an error.\<close>

definition mean :: "rat list \<Rightarrow> fval" where
  "mean xs = (if xs = [] then NaN else Fin (sum_list xs / of_nat (length xs)))"

text \<open>The \<open>first\<close> reduction: the first value of a group, nothing for an empty one.\<close>

fun first :: "'a list \<Rightarrow> 'a option" where
  "first [] = None"
| "first (x # xs) = Some x"

section \<open>The loaded table and the filter selection\<close>

text \<open>
  One row of the table read by \<open>load_data\<close>, with the columns the script uses. Every
  column is taken to be fully populated: a missing value has no place in the record.
\<close>

record crime_record =
  Any :: int
  Canto_norm :: pystr
  Tipus_de_Delicte :: pystr
  Nivell_de_Resolucio :: pystr
  Nombre_de_Delictes :: int
  Taxa_Criminalitat_per_1000 :: rat
  Percentatge_Casos_Resolts :: rat
  PIB_per_Capita :: rat
  Percentatge_Estrangers :: rat
  Poblacio_Total :: int

text \<open>The three sidebar widgets: the year slider, the canton box, the offence multiselect.\<close>

record selection =
  selected_year :: "int \<times> int"
  selected_canton :: pystr
  selected_offence :: "pystr list"

definition Tots :: pystr where
  "Tots = str ''Tots''"

definition Total_de_casos :: pystr where
  "Total_de_casos = str ''Total de casos''"

definition Resolts :: pystr where
  "Resolts = str ''Resolts''"

definition Switzerland :: pystr where
  "Switzerland = str ''Switzerland''"

text \<open>\<open>Series.between(left, right)\<close>, both ends included.\<close>

definition between :: "int \<Rightarrow> int \<Rightarrow> int \<Rightarrow> bool" where
  "between x left right = (left \<le> x \<and> x \<le> right)"

text \<open>Lines 54-57: the filtered view, as the rows it holds.\<close>

definition df_filtered :: "crime_record list \<Rightarrow> selection \<Rightarrow> crime_record list" where
  "df_filtered df sel =
     (let d1 = filter (\<lambda>r. between (Any r) (fst (selected_year sel)) (snd (selected_year sel))) df;
          d2 = (if selected_canton sel \<noteq> Tots
                then filter (\<lambda>r. Canto_norm r = selected_canton sel) d1
                else d1)
      in filter (\<lambda>r. Tipus_de_Delicte r \<in> set (selected_offence sel)) d2)"

text \<open>
  The three conditions of the filter as the specification lists them: year in the closed
  range, canton equal to the selected one unless the sentinel is chosen, offence type in
  the selected subset.
\<close>

definition passes_filters :: "selection \<Rightarrow> crime_record \<Rightarrow> bool" where
  "passes_filters sel r =
     (fst (selected_year sel) \<le> Any r \<and> Any r \<le> snd (selected_year sel)
      \<and> (selected_canton sel = Tots \<or> Canto_norm r = selected_canton sel)
      \<and> Tipus_de_Delicte r \<in> set (selected_offence sel))"

section \<open>KPI metrics\<close>

text \<open>Lines 63-65.\<close>

definition total_crimes :: "crime_record list \<Rightarrow> int" where
  "total_crimes dff = sum_list (map Nombre_de_Delictes dff)"

definition avg_crime_rate :: "crime_record list \<Rightarrow> fval" where
  "avg_crime_rate dff = mean (map Taxa_Criminalitat_per_1000 dff)"

definition avg_resolution :: "crime_record list \<Rightarrow> fval" where
  "avg_resolution dff = mean (map Percentatge_Casos_Resolts dff)"

text \<open>
  Lines 67-69 render the three values with \<open>f"{int(total_crimes):,}"\<close>,
  \<open>f"{avg_crime_rate:.2f}"\<close> and \<open>f"{avg_resolution:.2f}%"\<close>. The two format
  specifications are modelled below: an integer in decimal with a comma between groups
  of three digits, and a float with two decimals, where \<open>nan\<close> and the infinities are
  spelled out and a finite value is formatted from the rational that models it, ties
  rounded to even.
\<close>

definition digit :: "nat \<Rightarrow> char" where
  "digit n = ''0123456789'' ! n"

fun digits :: "nat \<Rightarrow> string" where
  "digits n = (if n < 10 then [digit n] else digits (n div 10) @ [digit (n mod 10)])"

text \<open>The separator is inserted on the reversed digits, every three of them.\<close>

fun group3 :: "string \<Rightarrow> string" where
  "group3 (a # b # c # d # ds) = a # b # c # CHR '','' # group3 (d # ds)"
| "group3 ds = ds"

definition format_thousands :: "int \<Rightarrow> string" where
  "format_thousands n = (if n < 0 then ''-'' else []) @ rev (group3 (rev (digits (nat \<bar>n\<bar>))))"

definition round_half_even :: "rat \<Rightarrow> int" where
  "round_half_even x =
     (let f = \<lfloor>x\<rfloor>; d = x - of_int f
      in if d < 1 / 2 then f else if 1 / 2 < d then f + 1 else if even f then f else f + 1)"

fun format_2f :: "fval \<Rightarrow> string" where
  "format_2f NaN = ''nan''"
| "format_2f PInf = ''inf''"
| "format_2f NInf = ''-inf''"
| "format_2f (Fin q) =
     (let c = nat (round_half_even (\<bar>q\<bar> * 100))
      in (if q < 0 then ''-'' else []) @ digits (c div 100) @ ''.''
         @ [digit (c mod 100 div 10), digit (c mod 10)])"

text \<open>The texts handed to the three \<open>metric\<close> widgets.\<close>

definition kpi_texts :: "crime_record list \<Rightarrow> string \<times> string \<times> string" where
  "kpi_texts dff =
     (format_thousands (total_crimes dff),
      format_2f (avg_crime_rate dff),
      format_2f (avg_resolution dff) @ ''%'')"

section \<open>Grouping\<close>

text \<open>
  \<open>groupby(keys)\<close>: one group per key value that occurs, the groups in ascending key
  order, each holding its rows in table order. Strings compare by code point and key
  tuples lexicographically, as in Python.
\<close>

definition groupby :: "('r \<Rightarrow> 'k::linorder) \<Rightarrow> 'r list \<Rightarrow> ('k \<times> 'r list) list" where
  "groupby key rs = map (\<lambda>k. (k, filter (\<lambda>r. key r = k) rs)) (sort (remdups (map key rs)))"

text \<open>\<open>groupby(keys)[col].sum().reset_index()\<close>: a row per group, the key and the sum.\<close>

definition groupby_sum :: "('r \<Rightarrow> 'k::linorder) \<Rightarrow> ('r \<Rightarrow> int) \<Rightarrow> 'r list \<Rightarrow> ('k \<times> int) list" where
  "groupby_sum key col rs = map (\<lambda>(k, g). (k, sum_list (map col g))) (groupby key rs)"

text \<open>
  \<open>t.groupby(outer)[col].transform(lambda x: 100 * x / x.sum())\<close> on a table of keyed
  counts: every row keeps its place and receives a hundred times its count divided by
  the sum of the counts of the rows with the same outer key.
\<close>

definition group_total :: "('k \<Rightarrow> 'g) \<Rightarrow> ('k \<times> int) list \<Rightarrow> 'g \<Rightarrow> int" where
  "group_total outer t g = sum_list (map snd (filter (\<lambda>(k, n). outer k = g) t))"

definition transform_pct :: "('k \<Rightarrow> 'g) \<Rightarrow> ('k \<times> int) list \<Rightarrow> ('k \<times> int \<times> fval) list" where
  "transform_pct outer t =
     map (\<lambda>(k, n). (k, n, truediv (100 * n) (group_total outer t (outer k)))) t"

section \<open>Sections 2 to 4: map, time series, scatter\<close>

text \<open>
  Lines 78-81. A row of \<open>map_data\<close> is \<open>((Canto_norm, Any), mean rate, sum of counts)\<close>;
  the same table feeds the map and the line chart.
\<close>

definition map_data :: "crime_record list \<Rightarrow> ((pystr \<times> int) \<times> fval \<times> int) list" where
  "map_data dff =
     map (\<lambda>(k, g). (k, mean (map Taxa_Criminalitat_per_1000 g), sum_list (map Nombre_de_Delictes g)))
       (groupby (\<lambda>r. (Canto_norm r, Any r)) dff)"

text \<open>
  Lines 124-138. The scatter keeps the \<open>Total de casos\<close> rows only; a row of
  \<open>scatter_data\<close> is \<open>((Canto_norm, Any), mean rate, first GDP, first share of
  foreigners, first population)\<close>.
\<close>

definition df_scatter :: "crime_record list \<Rightarrow> crime_record list" where
  "df_scatter dff = filter (\<lambda>r. Nivell_de_Resolucio r = Total_de_casos) dff"

definition scatter_data ::
  "crime_record list \<Rightarrow> ((pystr \<times> int) \<times> fval \<times> rat option \<times> rat option \<times> int option) list" where
  "scatter_data dff =
     map (\<lambda>(k, g). (k, mean (map Taxa_Criminalitat_per_1000 g), first (map PIB_per_Capita g),
                     first (map Percentatge_Estrangers g), first (map Poblacio_Total g)))
       (groupby (\<lambda>r. (Canto_norm r, Any r)) (df_scatter dff))"

section \<open>Section 4 (second of that number): resolution by offence category\<close>

text \<open>Line 169: a row is \<open>((Tipus_de_Delicte, Nivell_de_Resolucio), sum of counts)\<close>.\<close>

definition stacked_data :: "crime_record list \<Rightarrow> ((pystr \<times> pystr) \<times> int) list" where
  "stacked_data dff =
     groupby_sum (\<lambda>r. (Tipus_de_Delicte r, Nivell_de_Resolucio r)) Nombre_de_Delictes dff"

text \<open>
  Lines 193 and 199: the column \<open>Categorie\<close> is added to \<open>stacked_data\<close>, computed by the
  first definition of the categorizer. A row becomes \<open>(Categorie, (Tipus, Nivell), count)\<close>.
\<close>

definition stacked_data_Categorie ::
  "(pystr \<Rightarrow> pystr) \<Rightarrow> crime_record list \<Rightarrow> (pystr \<times> (pystr \<times> pystr) \<times> int) list" where
  "stacked_data_Categorie lower dff =
     map (\<lambda>((t, l), n). (categoritza_delicte lower t, (t, l), n)) (stacked_data dff)"

text \<open>Lines 202-204: a row is \<open>((Categorie, Nivell_de_Resolucio), sum of counts)\<close>.\<close>

definition stacked_data_cat ::
  "(pystr \<Rightarrow> pystr) \<Rightarrow> crime_record list \<Rightarrow> ((pystr \<times> pystr) \<times> int) list" where
  "stacked_data_cat lower dff =
     groupby_sum (\<lambda>(c, (t, l), n). (c, l)) (\<lambda>(c, (t, l), n). n) (stacked_data_Categorie lower dff)"

text \<open>Line 207: the column \<open>Percentatge\<close>, the share within each \<open>Categorie\<close>.\<close>

definition stacked_data_cat_pct ::
  "(pystr \<Rightarrow> pystr) \<Rightarrow> crime_record list \<Rightarrow> ((pystr \<times> pystr) \<times> int \<times> fval) list" where
  "stacked_data_cat_pct lower dff = transform_pct fst (stacked_data_cat lower dff)"

text \<open>
  Lines 210-212: the \<open>Total de casos\<close> rows are dropped after the percentages have been
  computed; what remains is the table the stacked bar chart draws.
\<close>

definition stacked_chart_rows ::
  "(pystr \<Rightarrow> pystr) \<Rightarrow> crime_record list \<Rightarrow> ((pystr \<times> pystr) \<times> int \<times> fval) list" where
  "stacked_chart_rows lower dff =
     filter (\<lambda>((c, l), n, p). l \<noteq> Total_de_casos) (stacked_data_cat_pct lower dff)"

text \<open>The height of the stacked bar of one category: the sum of the percentages drawn.\<close>

definition stacked_bar_height :: "(pystr \<Rightarrow> pystr) \<Rightarrow> crime_record list \<Rightarrow> pystr \<Rightarrow> fval" where
  "stacked_bar_height lower dff c =
     fsum (map (\<lambda>(k, n, p). p) (filter (\<lambda>(k, n, p). fst k = c) (stacked_chart_rows lower dff)))"

section \<open>Sections 5 to 10: the categorised view and its aggregations\<close>

text \<open>
  Line 253: the column \<open>Categorie\<close> is added to the filtered view, computed by the second
  definition of the categorizer. A categorised row is the pair of the row and its category.
\<close>

definition df_filtered_Categorie ::
  "(pystr \<Rightarrow> pystr) \<Rightarrow> crime_record list \<Rightarrow> (crime_record \<times> pystr) list" where
  "df_filtered_Categorie lower dff =
     map (\<lambda>r. (r, categoritza_delicte_2 lower (Tipus_de_Delicte r))) dff"

text \<open>Line 255: a row is \<open>((Any, Categorie), sum of counts)\<close>.\<close>

definition temporal_data :: "(crime_record \<times> pystr) list \<Rightarrow> ((int \<times> pystr) \<times> int) list" where
  "temporal_data dfc = groupby_sum (\<lambda>(r, c). (Any r, c)) (\<lambda>(r, c). Nombre_de_Delictes r) dfc"

text \<open>
  Lines 274-276: here the \<open>Total de casos\<close> rows are dropped first, and the percentage is
  the share within each \<open>(Any, Categorie)\<close>. A row of \<open>resolution_pct\<close> is
  \<open>((Any, Categorie, Nivell_de_Resolucio), sum of counts, Percentatge)\<close>.
\<close>

definition resolution_data :: "(crime_record \<times> pystr) list \<Rightarrow> (crime_record \<times> pystr) list" where
  "resolution_data dfc = filter (\<lambda>(r, c). Nivell_de_Resolucio r \<noteq> Total_de_casos) dfc"

definition resolution_counts ::
  "(crime_record \<times> pystr) list \<Rightarrow> ((int \<times> pystr \<times> pystr) \<times> int) list" where
  "resolution_counts dfc =
     groupby_sum (\<lambda>(r, c). (Any r, c, Nivell_de_Resolucio r)) (\<lambda>(r, c). Nombre_de_Delictes r)
       (resolution_data dfc)"

definition resolution_pct ::
  "(crime_record \<times> pystr) list \<Rightarrow> ((int \<times> pystr \<times> pystr) \<times> int \<times> fval) list" where
  "resolution_pct dfc = transform_pct (\<lambda>(a, c, l). (a, c)) (resolution_counts dfc)"

text \<open>Line 279: the line chart draws the \<open>Resolts\<close> rows of \<open>resolution_pct\<close>.\<close>

definition line_res_rows ::
  "(crime_record \<times> pystr) list \<Rightarrow> ((int \<times> pystr \<times> pystr) \<times> int \<times> fval) list" where
  "line_res_rows dfc = filter (\<lambda>((a, c, l), n, p). l = Resolts) (resolution_pct dfc)"

text \<open>
  Lines 297-298: the rows of canton \<open>Switzerland\<close> are dropped, then a row is
  \<open>((Canto_norm, Categorie), sum of counts)\<close>.
\<close>

definition cantons_cat :: "(crime_record \<times> pystr) list \<Rightarrow> ((pystr \<times> pystr) \<times> int) list" where
  "cantons_cat dfc =
     groupby_sum (\<lambda>(r, c). (Canto_norm r, c)) (\<lambda>(r, c). Nombre_de_Delictes r)
       (filter (\<lambda>(r, c). Canto_norm r \<noteq> Switzerland) dfc)"

text \<open>
  Lines 323-328, up to the call of \<open>corr()\<close>: the per-canton table whose columns are
  correlated. A row is \<open>(Canto_norm, sum of counts, mean GDP, mean share of foreigners,
  mean population)\<close>. The correlation matrix is a function of this table alone.
\<close>

definition corr_input ::
  "(crime_record \<times> pystr) list \<Rightarrow> (pystr \<times> int \<times> fval \<times> fval \<times> fval) list" where
  "corr_input dfc =
     map (\<lambda>(k, g). (k, sum_list (map (\<lambda>(r, c). Nombre_de_Delictes r) g),
                     mean (map (\<lambda>(r, c). PIB_per_Capita r) g),
                     mean (map (\<lambda>(r, c). Percentatge_Estrangers r) g),
                     mean (map (\<lambda>(r, c). of_int (Poblacio_Total r)) g)))
       (groupby (\<lambda>(r, c). Canto_norm r) dfc)"

text \<open>
  Lines 351-356: a row is \<open>((Any, Categorie, Canto_norm), sum of counts, first GDP,
  first share of foreigners, first population)\<close>.
\<close>

definition bubble_data ::
  "(crime_record \<times> pystr) list
     \<Rightarrow> ((int \<times> pystr \<times> pystr) \<times> int \<times> rat option \<times> rat option \<times> int option) list" where
  "bubble_data dfc =
     map (\<lambda>(k, g). (k, sum_list (map (\<lambda>(r, c). Nombre_de_Delictes r) g),
                     first (map (\<lambda>(r, c). PIB_per_Capita r) g),
                     first (map (\<lambda>(r, c). Percentatge_Estrangers r) g),
                     first (map (\<lambda>(r, c). Poblacio_Total r) g)))
       (groupby (\<lambda>(r, c). (Any r, c, Canto_norm r)) dfc)"

section \<open>The script as a program over a store of tables\<close>

text \<open>
  To follow which table an assignment changes, the tables of the script are objects in a
  store and the variables hold their positions. A table object is a list of rows, each
  with its derived column \<open>Categorie\<close> once that column has been assigned. Indexing a
  table by a boolean mask builds a new object; assigning a column changes the object
  the variable refers to, in place. The aggregated tables (group-by results) are new
  objects of another shape and are left out of the store.
\<close>

type_synonym frame = "(crime_record \<times> pystr option) list"

definition getitem_mask :: "frame list \<Rightarrow> nat \<Rightarrow> (crime_record \<Rightarrow> bool) \<Rightarrow> frame list \<times> nat" where
  "getitem_mask s a P = (s @ [filter (\<lambda>(r, c). P r) (s ! a)], length s)"

definition setitem_Categorie :: "frame list \<Rightarrow> nat \<Rightarrow> (crime_record \<Rightarrow> pystr) \<Rightarrow> frame list" where
  "setitem_Categorie s a f = s[a := map (\<lambda>(r, c). (r, Some (f r))) (s ! a)]"

text \<open>Lines 54-57 on the store: \<open>df\<close> is the position of the loaded table.\<close>

definition apply_filters :: "frame list \<Rightarrow> nat \<Rightarrow> selection \<Rightarrow> frame list \<times> nat" where
  "apply_filters s df sel =
     (let (s1, f1) = getitem_mask s df
                       (\<lambda>r. between (Any r) (fst (selected_year sel)) (snd (selected_year sel)));
          (s2, f2) = (if selected_canton sel \<noteq> Tots
                      then getitem_mask s1 f1 (\<lambda>r. Canto_norm r = selected_canton sel)
                      else (s1, f1))
      in getitem_mask s2 f2 (\<lambda>r. Tipus_de_Delicte r \<in> set (selected_offence sel)))"

text \<open>
  The variables of the script that refer to row tables, and the statements that create
  or change such a table: the filters (lines 54-57), \<open>df_scatter\<close> (line 124), the
  assignment of \<open>Categorie\<close> to the filtered view (line 253), \<open>resolution_data\<close>
  (line 274) and the table without \<open>Switzerland\<close> (line 297).
\<close>

record script_state =
  store :: "frame list"
  var_df :: nat
  var_df_filtered :: nat
  var_df_scatter :: nat
  var_resolution_data :: nat
  var_no_switzerland :: nat

definition run_script :: "(pystr \<Rightarrow> pystr) \<Rightarrow> frame list \<Rightarrow> nat \<Rightarrow> selection \<Rightarrow> script_state" where
  "run_script lower s df sel =
     (let (s3, dff) = apply_filters s df sel;
          (s4, scat) = getitem_mask s3 dff (\<lambda>r. Nivell_de_Resolucio r = Total_de_casos);
          s5 = setitem_Categorie s4 dff (\<lambda>r. categoritza_delicte_2 lower (Tipus_de_Delicte r));
          (s6, res) = getitem_mask s5 dff (\<lambda>r. Nivell_de_Resolucio r \<noteq> Total_de_casos);
          (s7, nosw) = getitem_mask s6 dff (\<lambda>r. Canto_norm r \<noteq> Switzerland)
      in \<lparr>store = s7, var_df = df, var_df_filtered = dff, var_df_scatter = scat,
          var_resolution_data = res, var_no_switzerland = nosw\<rparr>)"

section \<open>Example data\<close>

definition Zuric :: pystr where
  "Zuric = str ''Zuric''"

definition Bern :: pystr where
  "Bern = str ''Bern''"

definition No_resolts :: pystr where
  "No_resolts = str ''No resolts''"

definition Vol_simple :: pystr where
  "Vol_simple = str ''Vol simple''"

definition Incendie :: pystr where
  "Incendie = str ''Incendie''"

definition mk_row :: "int \<Rightarrow> pystr \<Rightarrow> pystr \<Rightarrow> pystr \<Rightarrow> int \<Rightarrow> crime_record" where
  "mk_row y c t l n =
     \<lparr>Any = y, Canto_norm = c, Tipus_de_Delicte = t, Nivell_de_Resolucio = l,
      Nombre_de_Delictes = n, Taxa_Criminalitat_per_1000 = 5, Percentatge_Casos_Resolts = 60,
      PIB_per_Capita = 80000, Percentatge_Estrangers = 25, Poblacio_Total = 1000000\<rparr>"

text \<open>
  A small table: thefts in Zuric in 2015 with their total and its two resolution levels,
  one row of another canton and year, and two rows of the country-level aggregate.
\<close>

definition example_df :: "crime_record list" where
  "example_df =
     [mk_row 2015 Zuric Vol_simple Total_de_casos 10,
      mk_row 2015 Zuric Vol_simple Resolts 6,
      mk_row 2015 Zuric Vol_simple No_resolts 4,
      mk_row 2016 Bern Incendie Resolts 3,
      mk_row 2015 Switzerland Vol_simple Resolts 7,
      mk_row 2015 Switzerland Vol_simple Total_de_casos 12]"

definition select_all :: selection where
  "select_all = \<lparr>selected_year = (2015, 2016), selected_canton = Tots,
                 selected_offence = [Vol_simple, Incendie]\<rparr>"

definition select_Zuric_2015 :: selection where
  "select_Zuric_2015 = \<lparr>selected_year = (2015, 2015), selected_canton = Zuric,
                        selected_offence = [Vol_simple, Incendie]\<rparr>"

definition select_no_offence :: selection where
  "select_no_offence = \<lparr>selected_year = (2015, 2016), selected_canton = Tots,
                        selected_offence = []\<rparr>"

text \<open>The two rows of the country-level aggregate, by name.\<close>

definition sw_total_row :: crime_record where
  "sw_total_row = mk_row 2015 Switzerland Vol_simple Total_de_casos 12"

definition sw_resolts_row :: crime_record where
  "sw_resolts_row = mk_row 2015 Switzerland Vol_simple Resolts 7"

text \<open>
  A table of two years and two offence types whose only row of the country-level
  aggregate has the level \<open>Resolts\<close>.
\<close>

definition scatter_gap_df :: "crime_record list" where
  "scatter_gap_df =
     [mk_row 2015 Switzerland Vol_simple Resolts 7,
      mk_row 2016 Bern Incendie Total_de_casos 3]"

text \<open>A table whose only category has a zero total.\<close>

definition zero_df :: "crime_record list" where
  "zero_df =
     [mk_row 2015 Zuric Vol_simple Resolts 0,
      mk_row 2015 Zuric Vol_simple No_resolts 0]"

text \<open>A store holding the example table alone, at position 0.\<close>

definition example_store :: "frame list" where
  "example_store = [map (\<lambda>r. (r, None)) example_df]"

section \<open>Properties of the string model\<close>

lemma startswith_iff_prefix: "startswith s p \<longleftrightarrow> prefix p s"
  by (induction s p rule: startswith.induct) auto

lemma py_in_iff_sublist: "py_in p s \<longleftrightarrow> sublist p s"
  by (induction s) (simp_all add: startswith_iff_prefix sublist_Cons_right)

lemma py_in_iff_split: "py_in p s \<longleftrightarrow> (\<exists>a b. s = a @ p @ b)"
  by (simp add: py_in_iff_sublist sublist_def)

lemma categories_distinct: "distinct categories"
  by (simp add: categories_def cat_Robatoris_def cat_Violencia_def cat_Frau_def
      cat_Sexuals_def cat_Altres_def str_def)

section \<open>Properties of the categorizer\<close>

lemma categoritza_delicte_in_categories:
  "categoritza_delicte lower d \<in> set categories"
  by (simp add: categoritza_delicte_def categories_def Let_def)

text \<open>
  Claim C4. The categorizer is total and deterministic on labels: for every label (and
  every lowercasing function) its result is exactly one of the five category labels,
  which are pairwise different. Being a function of the label alone, it yields the same
  category each time it is applied to the same label.
\<close>

theorem categoritza_delicte_total:
  "(\<exists>!c. c \<in> set categories \<and> categoritza_delicte lower d = c)
   \<and> distinct categories \<and> length categories = 5"
proof -
  have "\<exists>!c. c \<in> set categories \<and> categoritza_delicte lower d = c"
    using categoritza_delicte_in_categories [of lower d] by blast
  moreover have "length categories = 5"
    by (simp add: categories_def)
  ultimately show ?thesis
    using categories_distinct by blast
qed

text \<open>
  Claim C5. The source's chain of tests is the first-match policy of the specification:
  the label is lowercased, the four keyword groups are tried in the order
  Robberies/Damages, Violence/Homicide, Fraud/Corruption, Sexual offences, the first
  group with a keyword in the label decides whatever later groups would say, and a label
  matching none is \<open>Altres\<close>.
\<close>

theorem categoritza_delicte_first_match:
  "categoritza_delicte lower d = categorizer_spec lower d"
  by (simp add: categoritza_delicte_def categorizer_spec_def keyword_groups_def Let_def)

text \<open>
  A label with keywords of two groups: \<open>Vol avec violence\<close> contains \<open>vol\<close> and
  \<open>violence\<close>, and the earlier group wins.
\<close>

lemma categoritza_delicte_priority_example:
  "py_in (str ''vol'') (lower_latin1 (str ''Vol avec violence''))
   \<and> py_in (str ''violence'') (lower_latin1 (str ''Vol avec violence''))
   \<and> categoritza_delicte lower_latin1 (str ''Vol avec violence'') = cat_Robatoris"
  by (simp add: categoritza_delicte_def Let_def lower_latin1_def lower_cp_def str_def)

lemma categoritza_delicte_other_example:
  "categoritza_delicte lower_latin1 (str ''Incendie'') = cat_Altres"
  by (simp add: categoritza_delicte_def Let_def lower_latin1_def lower_cp_def str_def
      kw_detournement_def kw_lesions_def e_acute_def)

text \<open>
  Claim C9. The two definitions of \<open>categoritza_delicte\<close> in the source return the same
  category for every label.
\<close>

theorem categoritza_delicte_duplicates_equal:
  "categoritza_delicte lower d = categoritza_delicte_2 lower d"
  by (simp add: categoritza_delicte_def categoritza_delicte_2_def)

section \<open>Properties of the filter\<close>

lemma df_filtered_eq: "df_filtered df sel = filter (passes_filters sel) df"
  by (auto simp: df_filtered_def passes_filters_def between_def Let_def intro: filter_cong)

lemma passes_filters_between:
  "passes_filters sel r \<longleftrightarrow>
     between (Any r) (fst (selected_year sel)) (snd (selected_year sel))
     \<and> (selected_canton sel = Tots \<or> Canto_norm r = selected_canton sel)
     \<and> Tipus_de_Delicte r \<in> set (selected_offence sel)"
  by (simp add: passes_filters_def between_def)

lemma sum_list_filter_index:
  fixes f :: "'a \<Rightarrow> 'b::comm_monoid_add"
  shows "sum_list (map f (filter P xs)) = (\<Sum>i | i < length xs \<and> P (xs ! i). f (xs ! i))"
proof (induction xs rule: rev_induct)
  case Nil
  then show ?case by simp
next
  case (snoc x xs)
  let ?A = "{i. i < length xs \<and> P (xs ! i)}"
  let ?B = "{i. i < length (xs @ [x]) \<and> P ((xs @ [x]) ! i)}"
  have fin: "finite ?A" by simp
  have A: "(\<Sum>i\<in>?A. f ((xs @ [x]) ! i)) = (\<Sum>i\<in>?A. f (xs ! i))"
    by (rule sum.cong) (auto simp: nth_append)
  show ?case
  proof (cases "P x")
    case True
    have "?B = insert (length xs) ?A"
      using True by (auto simp: nth_append less_Suc_eq)
    then have "(\<Sum>i\<in>?B. f ((xs @ [x]) ! i)) = f x + (\<Sum>i\<in>?A. f ((xs @ [x]) ! i))"
      using fin by simp
    with True snoc A show ?thesis by (simp add: add.commute)
  next
    case False
    have "?B = ?A"
      using False by (auto simp: nth_append less_Suc_eq)
    with False snoc A show ?thesis by simp
  qed
qed

lemma mean_Nil: "mean [] = NaN"
  by (simp add: mean_def)

text \<open>
  Claim C2. For every year range, every canton selection (the sentinel \<open>Tots\<close> or a
  canton) and every offence subset, the filtered view is the loaded table restricted to
  the rows whose year lies in the closed range, whose canton is the selected one (any
  canton under the sentinel) and whose offence type is in the subset: the same rows, in
  table order, each as often as the table has it. The range need not even satisfy
  \<open>a \<le> b\<close>.
\<close>

theorem df_filtered_exact:
  "df_filtered df \<lparr>selected_year = (a, b), selected_canton = canton, selected_offence = offs\<rparr> =
     filter (\<lambda>r. a \<le> Any r \<and> Any r \<le> b \<and> (canton = Tots \<or> Canto_norm r = canton)
                 \<and> Tipus_de_Delicte r \<in> set offs) df"
  unfolding df_filtered_eq by (rule filter_cong) (simp_all add: passes_filters_def)

text \<open>The scenario of the specification: the year 2015 and the canton Zuric.\<close>

lemma df_filtered_scenario:
  "df_filtered example_df select_Zuric_2015 =
     [mk_row 2015 Zuric Vol_simple Total_de_casos 10,
      mk_row 2015 Zuric Vol_simple Resolts 6,
      mk_row 2015 Zuric Vol_simple No_resolts 4]"
  unfolding select_Zuric_2015_def df_filtered_exact
  by (simp add: example_df_def mk_row_def Zuric_def Bern_def Switzerland_def Tots_def
      Vol_simple_def Incendie_def str_def)

text \<open>
  Claim C3. The KPI total is the sum of \<open>Nombre_de_Delictes\<close> over the positions of the
  loaded table whose row passes the three filters: every such row once, no other row.
\<close>

theorem total_crimes_exact:
  "total_crimes (df_filtered df sel) =
     (\<Sum>i | i < length df \<and> passes_filters sel (df ! i). Nombre_de_Delictes (df ! i))"
  by (simp add: total_crimes_def df_filtered_eq sum_list_filter_index)

text \<open>The number formats on a few values.\<close>

lemma floor_rat_numeral_div:
  "\<lfloor>numeral a / numeral b :: rat\<rfloor> = numeral a div numeral b"
  using floor_divide_of_int_eq [of "numeral a" "numeral b", where ?'a = rat] by simp

lemma format_thousands_examples:
  "format_thousands 0 = ''0'' \<and> format_thousands 999 = ''999''
   \<and> format_thousands 1234567 = ''1,234,567'' \<and> format_thousands (- 1234) = ''-1,234''"
  by (simp add: format_thousands_def digit_def)

lemma format_2f_examples:
  "format_2f (Fin 60) = ''60.00'' \<and> format_2f (Fin (2 / 3)) = ''0.67''
   \<and> format_2f (Fin (1 / 8)) = ''0.12'' \<and> format_2f (Fin (- 1 / 1000)) = ''-0.00''"
  by (simp add: round_half_even_def digit_def Let_def floor_rat_numeral_div)

lemma kpi_texts_example:
  "kpi_texts (df_filtered example_df select_all) = (''42'', ''5.00'', ''60.00%'')"
proof -
  have "total_crimes (df_filtered example_df select_all) = 42"
    by code_simp
  moreover have "avg_crime_rate (df_filtered example_df select_all) = Fin 5"
    by code_simp
  moreover have "avg_resolution (df_filtered example_df select_all) = Fin 60"
    by code_simp
  moreover have "format_thousands 42 = ''42''"
    by (simp add: format_thousands_def digit_def)
  moreover have "format_2f (Fin 5) = ''5.00''"
    by (simp add: round_half_even_def digit_def Let_def)
  moreover have "format_2f (Fin 60) @ ''%'' = ''60.00%''"
    by (simp add: round_half_even_def digit_def Let_def)
  ultimately show ?thesis
    by (simp only: kpi_texts_def)
qed

text \<open>
  Claim C7. With no offence type selected the filtered view has no rows, and the three
  KPI values are computed and rendered without an error: the total is 0, both means are
  \<open>nan\<close>, and the texts shown are \<open>0\<close>, \<open>nan\<close> and \<open>nan%\<close>.
\<close>

theorem empty_offence_selection:
  assumes "selected_offence sel = []"
  shows "df_filtered df sel = [] \<and> total_crimes (df_filtered df sel) = 0
         \<and> avg_crime_rate (df_filtered df sel) = NaN \<and> avg_resolution (df_filtered df sel) = NaN
         \<and> kpi_texts (df_filtered df sel) = (''0'', ''nan'', ''nan%'')"
proof -
  have "df_filtered df sel = []"
    using assms by (simp add: df_filtered_eq passes_filters_def)
  moreover have "format_thousands 0 = ''0''"
    by (simp add: format_thousands_def digit_def)
  ultimately show ?thesis
    by (simp add: kpi_texts_def total_crimes_def avg_crime_rate_def avg_resolution_def mean_Nil)
qed

theorem empty_offence_selection_witness:
  "selected_offence select_no_offence = []
   \<and> df_filtered example_df select_no_offence = []
   \<and> total_crimes (df_filtered example_df select_no_offence) = 0
   \<and> avg_crime_rate (df_filtered example_df select_no_offence) = NaN
   \<and> avg_resolution (df_filtered example_df select_no_offence) = NaN
   \<and> kpi_texts (df_filtered example_df select_no_offence) = (''0'', ''nan'', ''nan%'')"
proof -
  have h: "selected_offence select_no_offence = []"
    by (simp add: select_no_offence_def)
  show ?thesis
    using h empty_offence_selection [OF h, of example_df] by blast
qed

section \<open>The loaded table is not changed\<close>

lemma getitem_mask_prefix:
  assumes "getitem_mask s a P = (s', b)"
  shows "prefix s s'" and "b = length s" and "length s' = Suc (length s)"
    and "s' ! b = filter (\<lambda>(r, c). P r) (s ! a)"
  using assms by (auto simp: getitem_mask_def)

lemma prefix_list_update:
  assumes "prefix s s'" and "length s \<le> a"
  shows "prefix s (s'[a := v])"
proof -
  from assms(1) obtain t where "s' = s @ t" by (auto simp: prefix_def)
  with assms(2) show ?thesis by (simp add: list_update_append)
qed

lemma setitem_Categorie_prefix:
  assumes "prefix s s'" and "length s \<le> a"
  shows "prefix s (setitem_Categorie s' a f)"
  using assms by (simp add: setitem_Categorie_def prefix_list_update)

lemma apply_filters_prefix:
  assumes "apply_filters s df sel = (s', b)"
  shows "prefix s s'" and "length s \<le> b" and "b < length s'"
proof -
  obtain s1 f1 where 1: "getitem_mask s df
      (\<lambda>r. between (Any r) (fst (selected_year sel)) (snd (selected_year sel))) = (s1, f1)"
    by (cases "getitem_mask s df
      (\<lambda>r. between (Any r) (fst (selected_year sel)) (snd (selected_year sel)))")
  obtain s2 f2 where 2: "(if selected_canton sel \<noteq> Tots
      then getitem_mask s1 f1 (\<lambda>r. Canto_norm r = selected_canton sel) else (s1, f1)) = (s2, f2)"
    by (cases "(if selected_canton sel \<noteq> Tots
      then getitem_mask s1 f1 (\<lambda>r. Canto_norm r = selected_canton sel) else (s1, f1))")
  from assms 1 2 have 3: "getitem_mask s2 f2
      (\<lambda>r. Tipus_de_Delicte r \<in> set (selected_offence sel)) = (s', b)"
    by (simp add: apply_filters_def)
  have p1: "prefix s s1" and l1: "length s1 = Suc (length s)"
    using getitem_mask_prefix [OF 1] by simp_all
  have p2: "prefix s1 s2"
    using 2 getitem_mask_prefix(1) [of s1 f1 _ s2 f2] by (auto split: if_splits)
  have p3: "prefix s2 s'" and b: "b = length s2" and l3: "length s' = Suc (length s2)"
    using getitem_mask_prefix [OF 3] by simp_all
  show "prefix s s'"
    using p1 p2 p3 by (meson prefix_order.order_trans)
  have "length s \<le> length s2"
    using p1 p2 by (meson prefix_length_le le_trans)
  then show "length s \<le> b" and "b < length s'"
    using b l3 by simp_all
qed

lemma run_script_prefix: "prefix s (store (run_script lower s df sel))"
proof -
  obtain s3 dff where 3: "apply_filters s df sel = (s3, dff)"
    by (cases "apply_filters s df sel")
  obtain s4 scat where 4: "getitem_mask s3 dff (\<lambda>r. Nivell_de_Resolucio r = Total_de_casos) = (s4, scat)"
    by (cases "getitem_mask s3 dff (\<lambda>r. Nivell_de_Resolucio r = Total_de_casos)")
  define s5 where "s5 = setitem_Categorie s4 dff (\<lambda>r. categoritza_delicte_2 lower (Tipus_de_Delicte r))"
  obtain s6 res where 6: "getitem_mask s5 dff (\<lambda>r. Nivell_de_Resolucio r \<noteq> Total_de_casos) = (s6, res)"
    by (cases "getitem_mask s5 dff (\<lambda>r. Nivell_de_Resolucio r \<noteq> Total_de_casos)")
  obtain s7 nosw where 7: "getitem_mask s6 dff (\<lambda>r. Canto_norm r \<noteq> Switzerland) = (s7, nosw)"
    by (cases "getitem_mask s6 dff (\<lambda>r. Canto_norm r \<noteq> Switzerland)")
  have st: "store (run_script lower s df sel) = s7"
    using 3 4 6 7 by (simp add: run_script_def s5_def)
  have p3: "prefix s s3" and a3: "length s \<le> dff"
    using apply_filters_prefix [OF 3] by simp_all
  have "prefix s3 s4"
    using getitem_mask_prefix(1) [OF 4] .
  with p3 have p4: "prefix s s4"
    by (meson prefix_order.order_trans)
  have p5: "prefix s s5"
    unfolding s5_def using p4 a3 by (rule setitem_Categorie_prefix)
  have "prefix s5 s6" and "prefix s6 s7"
    using getitem_mask_prefix(1) [OF 6] getitem_mask_prefix(1) [OF 7] by simp_all
  with p5 have "prefix s s7"
    by (meson prefix_order.order_trans)
  with st show ?thesis by simp
qed

lemma run_script_var_df: "var_df (run_script lower s df sel) = df"
  by (simp add: run_script_def Let_def split: prod.splits)

lemma apply_filters_content:
  assumes "df < length s" and "apply_filters s df sel = (s', b)"
  shows "s' ! b = filter (\<lambda>(r, c). passes_filters sel r) (s ! df)"
proof (cases "selected_canton sel \<noteq> Tots")
  case True
  with assms have "s' ! b =
      filter (\<lambda>(r, c). Tipus_de_Delicte r \<in> set (selected_offence sel))
        (filter (\<lambda>(r, c). Canto_norm r = selected_canton sel)
          (filter (\<lambda>(r, c). between (Any r) (fst (selected_year sel)) (snd (selected_year sel)))
            (s ! df)))"
    by (auto simp: apply_filters_def getitem_mask_def nth_append)
  also have "\<dots> = filter (\<lambda>(r, c). passes_filters sel r) (s ! df)"
    using True by (auto simp: passes_filters_between intro: filter_cong)
  finally show ?thesis .
next
  case False
  with assms have "s' ! b =
      filter (\<lambda>(r, c). Tipus_de_Delicte r \<in> set (selected_offence sel))
        (filter (\<lambda>(r, c). between (Any r) (fst (selected_year sel)) (snd (selected_year sel)))
          (s ! df))"
    by (auto simp: apply_filters_def getitem_mask_def nth_append)
  also have "\<dots> = filter (\<lambda>(r, c). passes_filters sel r) (s ! df)"
    using False by (auto simp: passes_filters_between intro: filter_cong)
  finally show ?thesis .
qed

lemma run_script_df_filtered:
  assumes "df < length s"
  shows "store (run_script lower s df sel) ! var_df_filtered (run_script lower s df sel) =
         map (\<lambda>(r, c). (r, Some (categoritza_delicte_2 lower (Tipus_de_Delicte r))))
           (filter (\<lambda>(r, c). passes_filters sel r) (s ! df))"
proof -
  obtain s3 dff where 3: "apply_filters s df sel = (s3, dff)"
    by (cases "apply_filters s df sel")
  have c: "s3 ! dff = filter (\<lambda>(r, c). passes_filters sel r) (s ! df)"
    using apply_filters_content [OF assms 3] .
  have b: "dff < length s3"
    using apply_filters_prefix(3) [OF 3] .
  show ?thesis
    using 3 b c
    by (simp add: run_script_def getitem_mask_def setitem_Categorie_def nth_append Let_def)
qed

text \<open>
  Claim C8. After the three filters and every later statement that builds or changes a
  row table, the assignment of \<open>Categorie\<close> to the filtered view included, the object of
  the loaded table holds the rows and columns it held before. The filtered view is
  another object, and it is that object which received the new column.
\<close>

theorem loaded_table_unchanged:
  assumes "df < length s"
  shows "store (run_script lower s df sel) ! var_df (run_script lower s df sel) = s ! df
         \<and> var_df_filtered (run_script lower s df sel) \<noteq> var_df (run_script lower s df sel)
         \<and> store (run_script lower s df sel) ! var_df_filtered (run_script lower s df sel) =
             map (\<lambda>(r, c). (r, Some (categoritza_delicte_2 lower (Tipus_de_Delicte r))))
               (filter (\<lambda>(r, c). passes_filters sel r) (s ! df))"
proof -
  have "store (run_script lower s df sel) ! df = s ! df"
    using run_script_prefix [of s lower df sel] assms
    by (auto simp: prefix_def nth_append)
  moreover have "var_df_filtered (run_script lower s df sel) \<noteq> df"
  proof -
    obtain s3 dff where 3: "apply_filters s df sel = (s3, dff)"
      by (cases "apply_filters s df sel")
    then have "var_df_filtered (run_script lower s df sel) = dff"
      by (simp add: run_script_def Let_def split: prod.splits)
    with apply_filters_prefix(2) [OF 3] assms show ?thesis by simp
  qed
  ultimately show ?thesis
    using run_script_df_filtered [OF assms] by (simp add: run_script_var_df)
qed

theorem loaded_table_unchanged_witness:
  "(0::nat) < length example_store
   \<and> store (run_script lower_latin1 example_store 0 select_Zuric_2015)
        ! var_df (run_script lower_latin1 example_store 0 select_Zuric_2015)
       = example_store ! 0
   \<and> var_df_filtered (run_script lower_latin1 example_store 0 select_Zuric_2015)
       \<noteq> var_df (run_script lower_latin1 example_store 0 select_Zuric_2015)
   \<and> store (run_script lower_latin1 example_store 0 select_Zuric_2015)
        ! var_df_filtered (run_script lower_latin1 example_store 0 select_Zuric_2015) =
       map (\<lambda>(r, c). (r, Some (categoritza_delicte_2 lower_latin1 (Tipus_de_Delicte r))))
         (filter (\<lambda>(r, c). passes_filters select_Zuric_2015 r) (example_store ! 0))"
proof -
  have h: "(0::nat) < length example_store"
    by (simp add: example_store_def)
  show ?thesis
    using h loaded_table_unchanged [OF h, of lower_latin1 select_Zuric_2015] by blast
qed

section \<open>Properties of grouping\<close>

lemma groupby_iff:
  "(k, g) \<in> set (groupby key rs) \<longleftrightarrow> k \<in> key ` set rs \<and> g = filter (\<lambda>r. key r = k) rs"
  by (auto simp: groupby_def)

lemma groupby_row:
  "r \<in> set rs \<Longrightarrow> (key r, filter (\<lambda>q. key q = key r) rs) \<in> set (groupby key rs)"
  by (simp add: groupby_iff)

lemma groupby_distinct: "distinct (map fst (groupby key rs))"
  by (simp add: groupby_def comp_def)

lemma groupby_sum_iff:
  "(k, n) \<in> set (groupby_sum key col rs) \<longleftrightarrow>
     k \<in> key ` set rs \<and> n = sum_list (map col (filter (\<lambda>r. key r = k) rs))"
  by (auto simp: groupby_sum_def groupby_iff)

lemma groupby_sum_nonneg:
  assumes "\<forall>r\<in>set rs. 0 \<le> col r" and "(k, n) \<in> set (groupby_sum key col rs)"
  shows "0 \<le> n"
proof -
  from assms(2) have "n = sum_list (map col (filter (\<lambda>r. key r = k) rs))"
    by (simp add: groupby_sum_iff)
  moreover have "0 \<le> sum_list (map col (filter (\<lambda>r. key r = k) rs))"
    by (rule sum_list_nonneg) (use assms(1) in auto)
  ultimately show ?thesis by simp
qed

section \<open>Percentages within a group\<close>

lemma fsum_Fin: "fsum (map Fin xs) = Fin (sum_list xs)"
  by (induction xs) simp_all

lemma transform_pct_length: "length (transform_pct outer t) = length t"
  by (simp add: transform_pct_def)

lemma transform_pct_group:
  "filter (\<lambda>(k, n, p). outer k = g) (transform_pct outer t) =
     map (\<lambda>(k, n). (k, n, truediv (100 * n) (group_total outer t g)))
       (filter (\<lambda>(k, n). outer k = g) t)"
  by (auto simp: transform_pct_def filter_map comp_def case_prod_unfold intro: map_cong)

lemma sum_list_shares:
  fixes T :: rat
  shows "sum_list (map (\<lambda>(k, n). 100 * of_int n / T) xs) = 100 * of_int (sum_list (map snd xs)) / T"
  by (induction xs) (auto simp: add_divide_distrib distrib_left)

text \<open>
  Where the percentages are computed, those of one group add up to 100 as soon as the
  group's total is not zero.
\<close>

lemma transform_pct_sum_100:
  assumes "group_total outer t g \<noteq> 0"
  shows "fsum (map (\<lambda>(k, n, p). p) (filter (\<lambda>(k, n, p). outer k = g) (transform_pct outer t)))
         = Fin 100"
proof -
  let ?T = "group_total outer t g"
  let ?G = "filter (\<lambda>(k, n). outer k = g) t"
  have "map (\<lambda>(k, n, p). p) (filter (\<lambda>(k, n, p). outer k = g) (transform_pct outer t))
        = map Fin (map (\<lambda>(k, n). 100 * of_int n / of_int ?T) ?G)"
    unfolding transform_pct_group using assms
    by (simp add: truediv_def comp_def case_prod_unfold)
  then have "fsum (map (\<lambda>(k, n, p). p) (filter (\<lambda>(k, n, p). outer k = g) (transform_pct outer t)))
        = Fin (100 * of_int (sum_list (map snd ?G)) / of_int ?T)"
    by (simp only: fsum_Fin sum_list_shares)
  moreover have "sum_list (map snd ?G) = ?T"
    by (simp add: group_total_def)
  moreover have "100 * of_int ?T / of_int ?T = (100 :: rat)"
    using assms by simp
  ultimately show ?thesis
    by (simp only:)
qed

text \<open>
  With a zero total the division yields no finite number; when no count is negative
  every count of the group is zero and the result is \<open>nan\<close>.
\<close>

lemma transform_pct_zero_total:
  assumes "(k, n, p) \<in> set (transform_pct outer t)" and "group_total outer t (outer k) = 0"
  shows "p = NaN \<or> p = PInf \<or> p = NInf"
  using assms by (auto simp: transform_pct_def truediv_def split: if_splits)

lemma transform_pct_zero_total_nonneg:
  assumes "(k, n, p) \<in> set (transform_pct outer t)" and "group_total outer t (outer k) = 0"
    and "\<forall>(k', n') \<in> set t. 0 \<le> n'"
  shows "p = NaN"
proof -
  let ?G = "filter (\<lambda>(k', n'). outer k' = outer k) t"
  from assms(1) have mem: "(k, n) \<in> set t" and p: "p = truediv (100 * n) (group_total outer t (outer k))"
    by (auto simp: transform_pct_def)
  have "\<forall>x\<in>set (map snd ?G). 0 \<le> x"
    using assms(3) by auto
  moreover have "sum_list (map snd ?G) = 0"
    using assms(2) by (simp add: group_total_def)
  ultimately have "\<forall>x\<in>set (map snd ?G). x = 0"
    using sum_list_nonneg_eq_0_iff [of "map snd ?G"] by blast
  moreover have "n \<in> set (map snd ?G)"
    using mem by force
  ultimately have "n = 0" by blast
  with p assms(2) show ?thesis
    by (simp add: truediv_def)
qed

lemma stacked_data_cat_pct_sum_100:
  assumes "group_total fst (stacked_data_cat lower dff) c \<noteq> 0"
  shows "fsum (map (\<lambda>(k, n, p). p)
           (filter (\<lambda>(k, n, p). fst k = c) (stacked_data_cat_pct lower dff))) = Fin 100"
  unfolding stacked_data_cat_pct_def using assms by (rule transform_pct_sum_100)

lemma resolution_pct_sum_100:
  assumes "group_total (\<lambda>(a, c, l). (a, c)) (resolution_counts dfc) g \<noteq> 0"
  shows "fsum (map (\<lambda>(k, n, p). p)
           (filter (\<lambda>(k, n, p). (\<lambda>(a, c, l). (a, c)) k = g) (resolution_pct dfc))) = Fin 100"
  unfolding resolution_pct_def using assms by (rule transform_pct_sum_100)

text \<open>
  In section 7 the \<open>Total de casos\<close> rows are removed before the percentages are
  computed, so the table of percentages holds none and its groups keep their sum of 100.
\<close>

lemma resolution_pct_no_total:
  assumes "((a, c, l), n, p) \<in> set (resolution_pct dfc)"
  shows "l \<noteq> Total_de_casos"
proof -
  from assms have "((a, c, l), n) \<in> set (resolution_counts dfc)"
    by (auto simp: resolution_pct_def transform_pct_def)
  then have "(a, c, l) \<in> (\<lambda>(r, c). (Any r, c, Nivell_de_Resolucio r)) ` set (resolution_data dfc)"
    by (simp add: resolution_counts_def groupby_sum_iff)
  then show ?thesis
    by (auto simp: resolution_data_def)
qed

lemma sum_list_filter_split:
  fixes f :: "'a \<Rightarrow> int"
  shows "sum_list (map f (filter P xs)) + sum_list (map f (filter (\<lambda>x. \<not> P x) xs))
         = sum_list (map f xs)"
  by (induction xs) simp_all

lemma transform_pct_part:
  "filter (\<lambda>(k, n, p). outer k = g \<and> Q k) (transform_pct outer t) =
     map (\<lambda>(k, n). (k, n, truediv (100 * n) (group_total outer t g)))
       (filter (\<lambda>(k, n). outer k = g \<and> Q k) t)"
  by (auto simp: transform_pct_def filter_map comp_def case_prod_unfold intro: map_cong)

lemma transform_pct_part_sum:
  assumes "group_total outer t g \<noteq> 0"
  shows "fsum (map (\<lambda>(k, n, p). p)
           (filter (\<lambda>(k, n, p). outer k = g \<and> Q k) (transform_pct outer t)))
         = Fin (100 * of_int (sum_list (map snd (filter (\<lambda>(k, n). outer k = g \<and> Q k) t)))
                / of_int (group_total outer t g))"
proof -
  let ?T = "group_total outer t g"
  let ?G = "filter (\<lambda>(k, n). outer k = g \<and> Q k) t"
  have "map (\<lambda>(k, n, p). p) (filter (\<lambda>(k, n, p). outer k = g \<and> Q k) (transform_pct outer t))
        = map Fin (map (\<lambda>(k, n). 100 * of_int n / of_int ?T) ?G)"
    unfolding transform_pct_part using assms
    by (simp add: truediv_def comp_def case_prod_unfold)
  then show ?thesis
    by (simp only: fsum_Fin sum_list_shares)
qed

text \<open>
  The height of a stacked bar in general: a hundred times the counts of the category's
  rows other than \<open>Total de casos\<close>, divided by the total of all its rows. It is 100
  exactly when the \<open>Total de casos\<close> rows of the category count nothing.
\<close>

lemma stacked_bar_height_eq:
  assumes "group_total fst (stacked_data_cat lower dff) c \<noteq> 0"
  shows "stacked_bar_height lower dff c =
         Fin (100 * of_int (sum_list (map snd
                  (filter (\<lambda>(k, n). fst k = c \<and> snd k \<noteq> Total_de_casos)
                     (stacked_data_cat lower dff))))
              / of_int (group_total fst (stacked_data_cat lower dff) c))"
proof -
  have "filter (\<lambda>(k, n, p). fst k = c) (stacked_chart_rows lower dff) =
        filter (\<lambda>(k, n, p). fst k = c \<and> snd k \<noteq> Total_de_casos)
          (transform_pct fst (stacked_data_cat lower dff))"
    by (auto simp: stacked_chart_rows_def stacked_data_cat_pct_def case_prod_unfold
        intro: filter_cong)
  then show ?thesis
    unfolding stacked_bar_height_def
    using transform_pct_part_sum [OF assms, of "\<lambda>k. snd k \<noteq> Total_de_casos"] by simp
qed

lemma stacked_bar_height_100_iff:
  assumes "group_total fst (stacked_data_cat lower dff) c \<noteq> 0"
  shows "stacked_bar_height lower dff c = Fin 100 \<longleftrightarrow>
         sum_list (map snd (filter (\<lambda>(k, n). fst k = c \<and> snd k = Total_de_casos)
                      (stacked_data_cat lower dff))) = 0"
proof -
  let ?t = "stacked_data_cat lower dff"
  let ?T = "group_total fst ?t c"
  let ?S = "sum_list (map snd (filter (\<lambda>(k, n). fst k = c \<and> snd k \<noteq> Total_de_casos) ?t))"
  let ?M = "sum_list (map snd (filter (\<lambda>(k, n). fst k = c \<and> snd k = Total_de_casos) ?t))"
  have "filter (\<lambda>(k, n). fst k = c \<and> snd k = Total_de_casos) ?t
        = filter (\<lambda>(k, n). snd k = Total_de_casos) (filter (\<lambda>(k, n). fst k = c) ?t)"
    and "filter (\<lambda>(k, n). fst k = c \<and> snd k \<noteq> Total_de_casos) ?t
        = filter (\<lambda>x. \<not> (\<lambda>(k, n). snd k = Total_de_casos) x) (filter (\<lambda>(k, n). fst k = c) ?t)"
    by (auto simp: case_prod_unfold intro: filter_cong)
  then have split: "?M + ?S = ?T"
    unfolding group_total_def
    using sum_list_filter_split [of snd "\<lambda>(k, n). snd k = Total_de_casos"
        "filter (\<lambda>(k, n). fst k = c) ?t"]
    by simp
  have "stacked_bar_height lower dff c = Fin 100 \<longleftrightarrow> (100 * of_int ?S / of_int ?T = (100::rat))"
    by (simp add: stacked_bar_height_eq [OF assms])
  also have "\<dots> \<longleftrightarrow> ?S = ?T"
    using assms by (simp add: field_simps)
  also have "\<dots> \<longleftrightarrow> ?M = 0"
    using split by linarith
  finally show ?thesis .
qed

text \<open>
  Section 7 on the example: the two levels left after the removal share the 100 between
  them, and the line chart draws the \<open>Resolts\<close> share.
\<close>

lemma resolution_pct_example:
  "resolution_pct (df_filtered_Categorie lower_latin1 (df_filtered example_df select_Zuric_2015))
     = [((2015, cat_Robatoris, No_resolts), 4, Fin 40), ((2015, cat_Robatoris, Resolts), 6, Fin 60)]
   \<and> line_res_rows (df_filtered_Categorie lower_latin1 (df_filtered example_df select_Zuric_2015))
     = [((2015, cat_Robatoris, Resolts), 6, Fin 60)]"
  by code_simp

text \<open>
  Claim C1. In the stacked bar chart the percentages are computed over the rows of a
  category including its \<open>Total de casos\<close> row, and that row is removed afterwards. On
  the example (a total of 10 with its levels 6 and 4) the category's total count is 20,
  not zero, and the percentages drawn are 30 and 20: the bar reaches 50, not 100.
\<close>

theorem stacked_bar_height_example:
  "group_total fst (stacked_data_cat lower_latin1 (df_filtered example_df select_Zuric_2015))
     cat_Robatoris = 20
   \<and> stacked_bar_height lower_latin1 (df_filtered example_df select_Zuric_2015) cat_Robatoris
     = Fin 50"
  by code_simp

lemma stacked_data_cat_nonneg:
  assumes "\<forall>r\<in>set dff. 0 \<le> Nombre_de_Delictes r"
  shows "\<forall>(k, n) \<in> set (stacked_data_cat lower dff). 0 \<le> n"
proof -
  have 1: "\<forall>(k, n) \<in> set (stacked_data dff). 0 \<le> n"
    unfolding stacked_data_def using groupby_sum_nonneg [OF assms] by blast
  have 2: "\<forall>x \<in> set (stacked_data_Categorie lower dff). 0 \<le> (\<lambda>(c, (t, l), n). n) x"
    using 1 by (force simp: stacked_data_Categorie_def)
  show ?thesis
    unfolding stacked_data_cat_def using groupby_sum_nonneg [OF 2] by blast
qed

lemma resolution_counts_nonneg:
  assumes "\<forall>r\<in>set dff. 0 \<le> Nombre_de_Delictes r"
  shows "\<forall>(k, n) \<in> set (resolution_counts (df_filtered_Categorie lower dff)). 0 \<le> n"
proof -
  have "\<forall>x \<in> set (resolution_data (df_filtered_Categorie lower dff)).
          0 \<le> (\<lambda>(r, c). Nombre_de_Delictes r) x"
    using assms by (auto simp: resolution_data_def df_filtered_Categorie_def)
  then show ?thesis
    unfolding resolution_counts_def using groupby_sum_nonneg by blast
qed

text \<open>
  Claim C6. The two percentage computations give a value to every row and never fail:
  the division is numpy's, which has no error case. For counts that are not negative, a
  row whose group total is zero receives the undefined marker \<open>nan\<close>, in the stacked-bar
  table and in the resolution table alike.
\<close>

theorem percentage_zero_total_is_nan:
  assumes "\<forall>r\<in>set dff. 0 \<le> Nombre_de_Delictes r"
  shows "length (stacked_data_cat_pct lower dff) = length (stacked_data_cat lower dff)
     \<and> ((k, n, p) \<in> set (stacked_data_cat_pct lower dff)
          \<and> group_total fst (stacked_data_cat lower dff) (fst k) = 0 \<longrightarrow> p = NaN)
     \<and> length (resolution_pct (df_filtered_Categorie lower dff))
          = length (resolution_counts (df_filtered_Categorie lower dff))
     \<and> ((k', n', p') \<in> set (resolution_pct (df_filtered_Categorie lower dff))
          \<and> group_total (\<lambda>(a, c, l). (a, c)) (resolution_counts (df_filtered_Categorie lower dff))
               ((\<lambda>(a, c, l). (a, c)) k') = 0 \<longrightarrow> p' = NaN)"
proof -
  have 1: "(k, n, p) \<in> set (stacked_data_cat_pct lower dff)
          \<and> group_total fst (stacked_data_cat lower dff) (fst k) = 0 \<longrightarrow> p = NaN"
    unfolding stacked_data_cat_pct_def
    using transform_pct_zero_total_nonneg [of k n p fst "stacked_data_cat lower dff"]
      stacked_data_cat_nonneg [OF assms, of lower] by blast
  have 2: "(k', n', p') \<in> set (resolution_pct (df_filtered_Categorie lower dff))
          \<and> group_total (\<lambda>(a, c, l). (a, c)) (resolution_counts (df_filtered_Categorie lower dff))
               ((\<lambda>(a, c, l). (a, c)) k') = 0 \<longrightarrow> p' = NaN"
    unfolding resolution_pct_def
    using transform_pct_zero_total_nonneg [of k' n' p' "\<lambda>(a, c, l). (a, c)"
        "resolution_counts (df_filtered_Categorie lower dff)"]
      resolution_counts_nonneg [OF assms, of lower] by blast
  have 3: "length (stacked_data_cat_pct lower dff) = length (stacked_data_cat lower dff)"
    by (simp add: stacked_data_cat_pct_def transform_pct_length)
  have 4: "length (resolution_pct (df_filtered_Categorie lower dff))
          = length (resolution_counts (df_filtered_Categorie lower dff))"
    by (simp add: resolution_pct_def transform_pct_length)
  from 1 2 3 4 show ?thesis by blast
qed

lemma zero_df_stacked:
  "stacked_data_cat_pct lower_latin1 zero_df =
     [((cat_Robatoris, No_resolts), 0, NaN), ((cat_Robatoris, Resolts), 0, NaN)]"
  by code_simp

lemma zero_df_resolution:
  "resolution_pct (df_filtered_Categorie lower_latin1 zero_df) =
     [((2015, cat_Robatoris, No_resolts), 0, NaN), ((2015, cat_Robatoris, Resolts), 0, NaN)]"
  by code_simp

theorem percentage_zero_total_is_nan_witness:
  "list_all (\<lambda>r. 0 \<le> Nombre_de_Delictes r) zero_df
   \<and> group_total fst (stacked_data_cat lower_latin1 zero_df) cat_Robatoris = 0
   \<and> list_all (\<lambda>(k, n, p). fst k = cat_Robatoris \<and> p = NaN)
        (stacked_data_cat_pct lower_latin1 zero_df)
   \<and> group_total (\<lambda>(a, c, l). (a, c))
        (resolution_counts (df_filtered_Categorie lower_latin1 zero_df)) (2015, cat_Robatoris) = 0
   \<and> list_all (\<lambda>(k, n, p). (\<lambda>(a, c, l). (a, c)) k = (2015, cat_Robatoris) \<and> p = NaN)
        (resolution_pct (df_filtered_Categorie lower_latin1 zero_df))"
proof -
  have h: "\<forall>r\<in>set zero_df. 0 \<le> Nombre_de_Delictes r"
    by (simp add: zero_df_def mk_row_def)
  have t1: "group_total fst (stacked_data_cat lower_latin1 zero_df) cat_Robatoris = 0"
    by code_simp
  have k1: "list_all (\<lambda>(k, n, p). fst k = cat_Robatoris) (stacked_data_cat_pct lower_latin1 zero_df)"
    by code_simp
  have t2: "group_total (\<lambda>(a, c, l). (a, c))
        (resolution_counts (df_filtered_Categorie lower_latin1 zero_df)) (2015, cat_Robatoris) = 0"
    by code_simp
  have k2: "list_all (\<lambda>(k, n, p). (\<lambda>(a, c, l). (a, c)) k = (2015, cat_Robatoris))
        (resolution_pct (df_filtered_Categorie lower_latin1 zero_df))"
    by code_simp
  have p1: "p = NaN" if "(k, n, p) \<in> set (stacked_data_cat_pct lower_latin1 zero_df)" for k n p
  proof -
    from that k1 have "fst k = cat_Robatoris"
      by (auto simp: list_all_iff)
    with that t1 percentage_zero_total_is_nan [OF h, of lower_latin1 k n p] show ?thesis
      by simp
  qed
  have p2: "p = NaN"
    if "(k, n, p) \<in> set (resolution_pct (df_filtered_Categorie lower_latin1 zero_df))" for k n p
  proof -
    from that k2 have "(\<lambda>(a, c, l). (a, c)) k = (2015, cat_Robatoris)"
      by (auto simp: list_all_iff)
    with that t2 percentage_zero_total_is_nan [OF h, of lower_latin1 _ _ _ k n p] show ?thesis
      by simp
  qed
  from h t1 t2 k1 k2 p1 p2 show ?thesis
    by (auto simp: list_all_iff)
qed

section \<open>The rows of the country-level aggregate\<close>

lemma cantons_cat_no_Switzerland:
  "\<forall>((canton, cat), n) \<in> set (cantons_cat dfc). canton \<noteq> Switzerland"
  by (auto simp: cantons_cat_def groupby_sum_iff)

lemma total_crimes_row:
  assumes "r \<in> set dff"
  shows "total_crimes dff = Nombre_de_Delictes r + total_crimes (remove1 r dff)"
  unfolding total_crimes_def using assms by (rule sum_list_map_remove1)

lemma mean_row:
  assumes "r \<in> set dff"
  shows "mean (map f dff) = Fin ((f r + sum_list (map f (remove1 r dff))) / of_nat (length dff))"
proof -
  from assms have "dff \<noteq> []" by auto
  then show ?thesis
    using sum_list_map_remove1 [OF assms, of f] by (simp add: mean_def)
qed

lemma groupby_agg_row:
  assumes "r \<in> set rs"
  shows "agg (key r, filter (\<lambda>q. key q = key r) rs) \<in> set (map agg (groupby key rs))"
  using groupby_row [OF assms, of key] by force

lemma map_data_row:
  assumes "r \<in> set dff"
  shows "((Canto_norm r, Any r),
          mean (map Taxa_Criminalitat_per_1000
                 (filter (\<lambda>q. Canto_norm q = Canto_norm r \<and> Any q = Any r) dff)),
          sum_list (map Nombre_de_Delictes
                 (filter (\<lambda>q. Canto_norm q = Canto_norm r \<and> Any q = Any r) dff)))
         \<in> set (map_data dff)"
  using groupby_agg_row [OF assms, of
      "\<lambda>(k, g). (k, mean (map Taxa_Criminalitat_per_1000 g), sum_list (map Nombre_de_Delictes g))"
      "\<lambda>r. (Canto_norm r, Any r)"]
  by (simp add: map_data_def)

lemma scatter_data_row:
  assumes "r \<in> set dff" and "Nivell_de_Resolucio r = Total_de_casos"
  shows "((Canto_norm r, Any r),
          mean (map Taxa_Criminalitat_per_1000
                 (filter (\<lambda>q. Canto_norm q = Canto_norm r \<and> Any q = Any r) (df_scatter dff))),
          first (map PIB_per_Capita
                 (filter (\<lambda>q. Canto_norm q = Canto_norm r \<and> Any q = Any r) (df_scatter dff))),
          first (map Percentatge_Estrangers
                 (filter (\<lambda>q. Canto_norm q = Canto_norm r \<and> Any q = Any r) (df_scatter dff))),
          first (map Poblacio_Total
                 (filter (\<lambda>q. Canto_norm q = Canto_norm r \<and> Any q = Any r) (df_scatter dff))))
         \<in> set (scatter_data dff)"
proof -
  from assms have "r \<in> set (df_scatter dff)"
    by (simp add: df_scatter_def)
  from groupby_agg_row [OF this, of
      "\<lambda>(k, g). (k, mean (map Taxa_Criminalitat_per_1000 g), first (map PIB_per_Capita g),
                     first (map Percentatge_Estrangers g), first (map Poblacio_Total g))"
      "\<lambda>r. (Canto_norm r, Any r)"]
  show ?thesis
    by (simp add: scatter_data_def)
qed

lemma temporal_data_row:
  assumes "(r, c) \<in> set dfc"
  shows "((Any r, c),
          sum_list (map (\<lambda>(q, d). Nombre_de_Delictes q)
                 (filter (\<lambda>(q, d). Any q = Any r \<and> d = c) dfc)))
         \<in> set (temporal_data dfc)"
  using groupby_agg_row [OF assms, of
      "\<lambda>(k, g). (k, sum_list (map (\<lambda>(q, d). Nombre_de_Delictes q) g))"
      "\<lambda>(q, d). (Any q, d)"]
  by (simp add: temporal_data_def groupby_sum_def case_prod_unfold)

lemma corr_input_row:
  assumes "(r, c) \<in> set dfc"
  shows "(Canto_norm r,
          sum_list (map (\<lambda>(q, d). Nombre_de_Delictes q)
                 (filter (\<lambda>(q, d). Canto_norm q = Canto_norm r) dfc)),
          mean (map (\<lambda>(q, d). PIB_per_Capita q)
                 (filter (\<lambda>(q, d). Canto_norm q = Canto_norm r) dfc)),
          mean (map (\<lambda>(q, d). Percentatge_Estrangers q)
                 (filter (\<lambda>(q, d). Canto_norm q = Canto_norm r) dfc)),
          mean (map (\<lambda>(q, d). of_int (Poblacio_Total q))
                 (filter (\<lambda>(q, d). Canto_norm q = Canto_norm r) dfc)))
         \<in> set (corr_input dfc)"
  using groupby_agg_row [OF assms, of
      "\<lambda>(k, g). (k, sum_list (map (\<lambda>(r, c). Nombre_de_Delictes r) g),
                     mean (map (\<lambda>(r, c). PIB_per_Capita r) g),
                     mean (map (\<lambda>(r, c). Percentatge_Estrangers r) g),
                     mean (map (\<lambda>(r, c). of_int (Poblacio_Total r)) g))"
      "\<lambda>(q, d). Canto_norm q"]
  by (simp add: corr_input_def case_prod_unfold)

lemma stacked_data_row:
  assumes "r \<in> set dff"
  shows "((Tipus_de_Delicte r, Nivell_de_Resolucio r),
          sum_list (map Nombre_de_Delictes
                 (filter (\<lambda>q. Tipus_de_Delicte q = Tipus_de_Delicte r
                              \<and> Nivell_de_Resolucio q = Nivell_de_Resolucio r) dff)))
         \<in> set (stacked_data dff)"
  using groupby_agg_row [OF assms, of
      "\<lambda>(k, g). (k, sum_list (map Nombre_de_Delictes g))"
      "\<lambda>r. (Tipus_de_Delicte r, Nivell_de_Resolucio r)"]
  by (simp add: stacked_data_def groupby_sum_def)

lemma resolution_counts_row:
  assumes "(r, c) \<in> set dfc" and "Nivell_de_Resolucio r \<noteq> Total_de_casos"
  shows "((Any r, c, Nivell_de_Resolucio r),
          sum_list (map (\<lambda>(q, d). Nombre_de_Delictes q)
                 (filter (\<lambda>(q, d). Any q = Any r \<and> d = c
                                 \<and> Nivell_de_Resolucio q = Nivell_de_Resolucio r)
                    (resolution_data dfc))))
         \<in> set (resolution_counts dfc)"
proof -
  from assms have "(r, c) \<in> set (resolution_data dfc)"
    by (simp add: resolution_data_def)
  from groupby_agg_row [OF this, of
      "\<lambda>(k, g). (k, sum_list (map (\<lambda>(q, d). Nombre_de_Delictes q) g))"
      "\<lambda>(q, d). (Any q, d, Nivell_de_Resolucio q)"]
  show ?thesis
    by (simp add: resolution_counts_def groupby_sum_def case_prod_unfold)
qed

lemma bubble_data_row:
  assumes "(r, c) \<in> set dfc"
  shows "((Any r, c, Canto_norm r),
          sum_list (map (\<lambda>(q, d). Nombre_de_Delictes q)
                 (filter (\<lambda>(q, d). Any q = Any r \<and> d = c \<and> Canto_norm q = Canto_norm r) dfc)),
          first (map (\<lambda>(q, d). PIB_per_Capita q)
                 (filter (\<lambda>(q, d). Any q = Any r \<and> d = c \<and> Canto_norm q = Canto_norm r) dfc)),
          first (map (\<lambda>(q, d). Percentatge_Estrangers q)
                 (filter (\<lambda>(q, d). Any q = Any r \<and> d = c \<and> Canto_norm q = Canto_norm r) dfc)),
          first (map (\<lambda>(q, d). Poblacio_Total q)
                 (filter (\<lambda>(q, d). Any q = Any r \<and> d = c \<and> Canto_norm q = Canto_norm r) dfc)))
         \<in> set (bubble_data dfc)"
  using groupby_agg_row [OF assms, of
      "\<lambda>(k, g). (k, sum_list (map (\<lambda>(r, c). Nombre_de_Delictes r) g),
                     first (map (\<lambda>(r, c). PIB_per_Capita r) g),
                     first (map (\<lambda>(r, c). Percentatge_Estrangers r) g),
                     first (map (\<lambda>(r, c). Poblacio_Total r) g))"
      "\<lambda>(q, d). (Any q, d, Canto_norm q)"]
  by (simp add: bubble_data_def case_prod_unfold)

lemma df_filtered_Categorie_row:
  assumes "r \<in> set dff"
  shows "(r, categoritza_delicte_2 lower (Tipus_de_Delicte r)) \<in> set (df_filtered_Categorie lower dff)"
  using assms by (auto simp: df_filtered_Categorie_def)

text \<open>
  Claim C10, as amended. A row of canton \<open>Switzerland\<close> in the filtered view is left out
  on account of its canton only by the per-canton-per-category table \<open>cantons_cat\<close>,
  which has no \<open>Switzerland\<close> group. The row is counted by the KPI total and by both KPI
  means, it belongs to the \<open>(Switzerland, year)\<close> group of \<open>map_data\<close> (map and time
  series), to its \<open>(year, category)\<close> group of \<open>temporal_data\<close> and to the \<open>Switzerland\<close>
  group of the table that is correlated; so it does to its groups of \<open>stacked_data\<close>
  and \<open>bubble_data\<close>. Two tables select rows by resolution level, for every canton
  alike: the scatter data holds the row exactly when its level is \<open>Total de casos\<close>,
  and the resolution counts hold it when its level is another one.
\<close>

theorem switzerland_rows_included:
  assumes "r \<in> set dff" and "Canto_norm r = Switzerland"
  shows
    "(\<forall>((canton, cat), n) \<in> set (cantons_cat (df_filtered_Categorie lower dff)).
        canton \<noteq> Switzerland)
     \<and> total_crimes dff = Nombre_de_Delictes r + total_crimes (remove1 r dff)
     \<and> avg_crime_rate dff =
         Fin ((Taxa_Criminalitat_per_1000 r
               + sum_list (map Taxa_Criminalitat_per_1000 (remove1 r dff))) / of_nat (length dff))
     \<and> avg_resolution dff =
         Fin ((Percentatge_Casos_Resolts r
               + sum_list (map Percentatge_Casos_Resolts (remove1 r dff))) / of_nat (length dff))
     \<and> r \<in> set (filter (\<lambda>q. Canto_norm q = Switzerland \<and> Any q = Any r) dff)
     \<and> ((Switzerland, Any r),
         mean (map Taxa_Criminalitat_per_1000
                (filter (\<lambda>q. Canto_norm q = Switzerland \<and> Any q = Any r) dff)),
         sum_list (map Nombre_de_Delictes
                (filter (\<lambda>q. Canto_norm q = Switzerland \<and> Any q = Any r) dff)))
        \<in> set (map_data dff)
     \<and> ((Any r, categoritza_delicte_2 lower (Tipus_de_Delicte r)),
         sum_list (map (\<lambda>(q, d). Nombre_de_Delictes q)
                (filter (\<lambda>(q, d). Any q = Any r
                                \<and> d = categoritza_delicte_2 lower (Tipus_de_Delicte r))
                   (df_filtered_Categorie lower dff))))
        \<in> set (temporal_data (df_filtered_Categorie lower dff))
     \<and> (Switzerland,
         sum_list (map (\<lambda>(q, d). Nombre_de_Delictes q)
                (filter (\<lambda>(q, d). Canto_norm q = Switzerland) (df_filtered_Categorie lower dff))),
         mean (map (\<lambda>(q, d). PIB_per_Capita q)
                (filter (\<lambda>(q, d). Canto_norm q = Switzerland) (df_filtered_Categorie lower dff))),
         mean (map (\<lambda>(q, d). Percentatge_Estrangers q)
                (filter (\<lambda>(q, d). Canto_norm q = Switzerland) (df_filtered_Categorie lower dff))),
         mean (map (\<lambda>(q, d). of_int (Poblacio_Total q))
                (filter (\<lambda>(q, d). Canto_norm q = Switzerland) (df_filtered_Categorie lower dff))))
        \<in> set (corr_input (df_filtered_Categorie lower dff))
     \<and> (Nivell_de_Resolucio r = Total_de_casos \<longrightarrow>
          r \<in> set (df_scatter dff)
          \<and> ((Switzerland, Any r),
              mean (map Taxa_Criminalitat_per_1000
                     (filter (\<lambda>q. Canto_norm q = Switzerland \<and> Any q = Any r) (df_scatter dff))),
              first (map PIB_per_Capita
                     (filter (\<lambda>q. Canto_norm q = Switzerland \<and> Any q = Any r) (df_scatter dff))),
              first (map Percentatge_Estrangers
                     (filter (\<lambda>q. Canto_norm q = Switzerland \<and> Any q = Any r) (df_scatter dff))),
              first (map Poblacio_Total
                     (filter (\<lambda>q. Canto_norm q = Switzerland \<and> Any q = Any r) (df_scatter dff))))
             \<in> set (scatter_data dff))
     \<and> (Nivell_de_Resolucio r \<noteq> Total_de_casos \<longrightarrow> r \<notin> set (df_scatter dff))
     \<and> ((Tipus_de_Delicte r, Nivell_de_Resolucio r),
         sum_list (map Nombre_de_Delictes
                (filter (\<lambda>q. Tipus_de_Delicte q = Tipus_de_Delicte r
                             \<and> Nivell_de_Resolucio q = Nivell_de_Resolucio r) dff)))
        \<in> set (stacked_data dff)
     \<and> ((Any r, categoritza_delicte_2 lower (Tipus_de_Delicte r), Switzerland),
         sum_list (map (\<lambda>(q, d). Nombre_de_Delictes q)
                (filter (\<lambda>(q, d). Any q = Any r
                                \<and> d = categoritza_delicte_2 lower (Tipus_de_Delicte r)
                                \<and> Canto_norm q = Switzerland)
                   (df_filtered_Categorie lower dff))),
         first (map (\<lambda>(q, d). PIB_per_Capita q)
                (filter (\<lambda>(q, d). Any q = Any r
                                \<and> d = categoritza_delicte_2 lower (Tipus_de_Delicte r)
                                \<and> Canto_norm q = Switzerland)
                   (df_filtered_Categorie lower dff))),
         first (map (\<lambda>(q, d). Percentatge_Estrangers q)
                (filter (\<lambda>(q, d). Any q = Any r
                                \<and> d = categoritza_delicte_2 lower (Tipus_de_Delicte r)
                                \<and> Canto_norm q = Switzerland)
                   (df_filtered_Categorie lower dff))),
         first (map (\<lambda>(q, d). Poblacio_Total q)
                (filter (\<lambda>(q, d). Any q = Any r
                                \<and> d = categoritza_delicte_2 lower (Tipus_de_Delicte r)
                                \<and> Canto_norm q = Switzerland)
                   (df_filtered_Categorie lower dff))))
        \<in> set (bubble_data (df_filtered_Categorie lower dff))
     \<and> (Nivell_de_Resolucio r \<noteq> Total_de_casos \<longrightarrow>
          ((Any r, categoritza_delicte_2 lower (Tipus_de_Delicte r), Nivell_de_Resolucio r),
           sum_list (map (\<lambda>(q, d). Nombre_de_Delictes q)
                  (filter (\<lambda>(q, d). Any q = Any r
                                  \<and> d = categoritza_delicte_2 lower (Tipus_de_Delicte r)
                                  \<and> Nivell_de_Resolucio q = Nivell_de_Resolucio r)
                     (resolution_data (df_filtered_Categorie lower dff)))))
          \<in> set (resolution_counts (df_filtered_Categorie lower dff)))"
proof -
  note c = df_filtered_Categorie_row [OF assms(1), of lower]
  note 11 = stacked_data_row [OF assms(1)]
  note 12 = bubble_data_row [OF c, unfolded assms(2)]
  have 13: "Nivell_de_Resolucio r \<noteq> Total_de_casos \<longrightarrow>
          ((Any r, categoritza_delicte_2 lower (Tipus_de_Delicte r), Nivell_de_Resolucio r),
           sum_list (map (\<lambda>(q, d). Nombre_de_Delictes q)
                  (filter (\<lambda>(q, d). Any q = Any r
                                  \<and> d = categoritza_delicte_2 lower (Tipus_de_Delicte r)
                                  \<and> Nivell_de_Resolucio q = Nivell_de_Resolucio r)
                     (resolution_data (df_filtered_Categorie lower dff)))))
          \<in> set (resolution_counts (df_filtered_Categorie lower dff))"
    using resolution_counts_row [OF c] by blast
  have 1: "\<forall>((canton, cat), n) \<in> set (cantons_cat (df_filtered_Categorie lower dff)).
        canton \<noteq> Switzerland"
    by (rule cantons_cat_no_Switzerland)
  have 2: "total_crimes dff = Nombre_de_Delictes r + total_crimes (remove1 r dff)"
    using assms(1) by (rule total_crimes_row)
  have 3: "avg_crime_rate dff =
         Fin ((Taxa_Criminalitat_per_1000 r
               + sum_list (map Taxa_Criminalitat_per_1000 (remove1 r dff))) / of_nat (length dff))"
    unfolding avg_crime_rate_def using assms(1) by (rule mean_row)
  have 4: "avg_resolution dff =
         Fin ((Percentatge_Casos_Resolts r
               + sum_list (map Percentatge_Casos_Resolts (remove1 r dff))) / of_nat (length dff))"
    unfolding avg_resolution_def using assms(1) by (rule mean_row)
  have 5: "r \<in> set (filter (\<lambda>q. Canto_norm q = Switzerland \<and> Any q = Any r) dff)"
    using assms by simp
  note 6 = map_data_row [OF assms(1), unfolded assms(2)]
  note 7 = temporal_data_row [OF c]
  note 8 = corr_input_row [OF c, unfolded assms(2)]
  have 9: "Nivell_de_Resolucio r = Total_de_casos \<longrightarrow>
          r \<in> set (df_scatter dff)
          \<and> ((Switzerland, Any r),
              mean (map Taxa_Criminalitat_per_1000
                     (filter (\<lambda>q. Canto_norm q = Switzerland \<and> Any q = Any r) (df_scatter dff))),
              first (map PIB_per_Capita
                     (filter (\<lambda>q. Canto_norm q = Switzerland \<and> Any q = Any r) (df_scatter dff))),
              first (map Percentatge_Estrangers
                     (filter (\<lambda>q. Canto_norm q = Switzerland \<and> Any q = Any r) (df_scatter dff))),
              first (map Poblacio_Total
                     (filter (\<lambda>q. Canto_norm q = Switzerland \<and> Any q = Any r) (df_scatter dff))))
             \<in> set (scatter_data dff)"
    using scatter_data_row [OF assms(1), unfolded assms(2)] assms(1)
    by (simp add: df_scatter_def)
  have 10: "Nivell_de_Resolucio r \<noteq> Total_de_casos \<longrightarrow> r \<notin> set (df_scatter dff)"
    by (simp add: df_scatter_def)
  from 1 2 3 4 5 6 7 8 9 10 11 12 13 show ?thesis
    by (intro conjI)
qed

text \<open>
  The claim as first stated fails for the scatter data: with every year and offence type
  selected, a \<open>Switzerland\<close> row of level \<open>Resolts\<close> passes the filters and is counted
  by the KPI total, yet the scatter data has the group of the other canton only.
\<close>

theorem switzerland_row_missing_from_scatter:
  "df_filtered scatter_gap_df select_all = scatter_gap_df
   \<and> sw_resolts_row \<in> set (df_filtered scatter_gap_df select_all)
   \<and> Canto_norm sw_resolts_row = Switzerland
   \<and> total_crimes (df_filtered scatter_gap_df select_all) = 10
   \<and> map fst (scatter_data (df_filtered scatter_gap_df select_all)) = [(Bern, 2016)]
   \<and> Bern \<noteq> Switzerland"
  by code_simp

theorem switzerland_rows_included_witness:
  "sw_total_row \<in> set (df_filtered example_df select_all)
   \<and> Canto_norm sw_total_row = Switzerland
   \<and> Nivell_de_Resolucio sw_total_row = Total_de_casos
   \<and> list_all (\<lambda>((canton, cat), n). canton \<noteq> Switzerland)
        (cantons_cat (df_filtered_Categorie lower_latin1 (df_filtered example_df select_all)))
   \<and> total_crimes (df_filtered example_df select_all) =
        Nombre_de_Delictes sw_total_row
        + total_crimes (remove1 sw_total_row (df_filtered example_df select_all))
   \<and> ((Switzerland, Any sw_total_row),
       mean (map Taxa_Criminalitat_per_1000
              (filter (\<lambda>q. Canto_norm q = Switzerland \<and> Any q = Any sw_total_row)
                 (df_filtered example_df select_all))),
       sum_list (map Nombre_de_Delictes
              (filter (\<lambda>q. Canto_norm q = Switzerland \<and> Any q = Any sw_total_row)
                 (df_filtered example_df select_all))))
      \<in> set (map_data (df_filtered example_df select_all))
   \<and> sw_total_row \<in> set (df_scatter (df_filtered example_df select_all))"
proof -
  have h1: "sw_total_row \<in> set (df_filtered example_df select_all)"
    by code_simp
  have h2: "Canto_norm sw_total_row = Switzerland"
    by (simp add: sw_total_row_def mk_row_def)
  have h3: "Nivell_de_Resolucio sw_total_row = Total_de_casos"
    by (simp add: sw_total_row_def mk_row_def)
  note th = switzerland_rows_included [OF h1 h2, of lower_latin1]
  from th h1 h2 h3 show ?thesis
    unfolding list_all_iff by blast
qed

text \<open>The aggregations on the example table, with every offence type and year selected.\<close>

lemma switzerland_example_values:
  "total_crimes (df_filtered example_df select_all) = 42
   \<and> map (\<lambda>(k, m, n). (k, n)) (map_data (df_filtered example_df select_all)) =
       [((Bern, 2016), 3), ((Switzerland, 2015), 19), ((Zuric, 2015), 20)]
   \<and> map fst (scatter_data (df_filtered example_df select_all)) =
       [(Switzerland, 2015), (Zuric, 2015)]
   \<and> cantons_cat (df_filtered_Categorie lower_latin1 (df_filtered example_df select_all)) =
       [((Bern, cat_Altres), 3), ((Zuric, cat_Robatoris), 20)]"
  by code_simp

end
